theory Spec2Isabelle
  imports Complex_Main
begin

section \<open>The camera-on-chain sensor model\<close>

text \<open>
  The embedding follows \<^verbatim>\<open>camera_chain_sensor.py\<close> line by line. Three things of the
  module are not Python of this file and are modelled explicitly:
  \<^item> numbers: Python floats are modelled as exact reals (\<^typ>\<open>real\<close>), so every
    statement below is a statement of exact arithmetic;
  \<^item> numpy: the array operations the module calls (\<^verbatim>\<open>matrix\<close>, \<^verbatim>\<open>zeros\<close>, \<^verbatim>\<open>diag\<close>,
    \<^verbatim>\<open>reshape\<close>, \<^verbatim>\<open>.T\<close>, \<^verbatim>\<open>*\<close>, \<^verbatim>\<open>+\<close>, \<^verbatim>\<open>-\<close>, item assignment) are given with their shapes
    and with the exceptions numpy raises on a shape mismatch;
  \<^item> the robot parameters: forward kinematics, the camera projection and the configured
    covariances come from other modules and are parameters of the model.
\<close>

subsection \<open>Exceptions\<close>

datatype py_error = AssertionError | ValueError | IndexError | AttributeError

definition bind_err :: "py_error + 'a \<Rightarrow> ('a \<Rightarrow> py_error + 'b) \<Rightarrow> py_error + 'b" where
  "bind_err r f = (case r of Inl e \<Rightarrow> Inl e | Inr v \<Rightarrow> f v)"

subsection \<open>numpy arrays\<close>

text \<open>
  A two-dimensional array (and a \<^verbatim>\<open>numpy.matrix\<close>, which is always two-dimensional) is its
  shape and its rows. The shape is stored because an array with no rows still has a column
  count, and numpy's shape checks read it. A one-dimensional array is a list.
\<close>

record matrix =
  shape0 :: nat
  shape1 :: nat
  rows :: "real list list"

datatype ndarray = Arr1 "real list" | Arr2 matrix

definition wf_matrix :: "matrix \<Rightarrow> bool" where
  "wf_matrix m = (length (rows m) = shape0 m \<and> list_all (\<lambda>r. length r = shape1 m) (rows m))"

text \<open>
  \<^verbatim>\<open>numpy.matrix(rows)\<close> on a list of equally long rows. On the empty list numpy builds a
  one-dimensional empty array and \<^verbatim>\<open>matrix\<close> promotes it to shape \<open>(1, 0)\<close>.
\<close>

definition matrix_of_lists :: "real list list \<Rightarrow> matrix" where
  "matrix_of_lists xss =
     (if xss = [] then \<lparr>shape0 = 1, shape1 = 0, rows = [[]]\<rparr>
      else \<lparr>shape0 = length xss, shape1 = length (hd xss), rows = xss\<rparr>)"

text \<open>\<^verbatim>\<open>numpy.matrix(a)\<close> on an array: a one-dimensional array becomes a single row.\<close>

fun np_matrix :: "ndarray \<Rightarrow> matrix" where
  "np_matrix (Arr1 v) = \<lparr>shape0 = 1, shape1 = length v, rows = [v]\<rparr>"
| "np_matrix (Arr2 m) = m"

definition zeros :: "nat \<Rightarrow> nat \<Rightarrow> matrix" where
  "zeros r c = \<lparr>shape0 = r, shape1 = c, rows = replicate r (replicate c 0)\<rparr>"

text \<open>
  \<^verbatim>\<open>numpy.diag\<close>: on a one-dimensional array the square matrix with that diagonal, on a
  two-dimensional array the one-dimensional array of its diagonal.
\<close>

fun np_diag :: "ndarray \<Rightarrow> ndarray" where
  "np_diag (Arr1 v) =
     Arr2 \<lparr>shape0 = length v, shape1 = length v,
           rows = map (\<lambda>i. map (\<lambda>j. if i = j then v ! i else 0) [0..<length v]) [0..<length v]\<rparr>"
| "np_diag (Arr2 m) = Arr1 (map (\<lambda>i. rows m ! i ! i) [0..<min (shape0 m) (shape1 m)])"

definition mat_T :: "matrix \<Rightarrow> matrix" where
  "mat_T m = \<lparr>shape0 = shape1 m, shape1 = shape0 m,
              rows = map (\<lambda>j. map (\<lambda>i. rows m ! i ! j) [0..<shape0 m]) [0..<shape1 m]\<rparr>"

text \<open>
  Matrix product (\<^verbatim>\<open>*\<close> on \<^verbatim>\<open>numpy.matrix\<close>): the inner dimensions must agree, otherwise numpy
  raises \<^verbatim>\<open>ValueError\<close>.
\<close>

definition mat_mul :: "matrix \<Rightarrow> matrix \<Rightarrow> py_error + matrix" where
  "mat_mul a b =
     (if shape1 a \<noteq> shape0 b then Inl ValueError
      else Inr \<lparr>shape0 = shape0 a, shape1 = shape1 b,
                rows = map (\<lambda>i. map (\<lambda>j. \<Sum>k\<leftarrow>[0..<shape1 a]. rows a ! i ! k * rows b ! k ! j)
                                   [0..<shape1 b]) [0..<shape0 a]\<rparr>)"

text \<open>
  Elementwise operations broadcast: two extents are compatible when they are equal or one
  of them is 1, and the operand of extent 1 is repeated. Incompatible extents raise
  \<^verbatim>\<open>ValueError\<close>.
\<close>

definition broadcast_dim :: "nat \<Rightarrow> nat \<Rightarrow> nat option" where
  "broadcast_dim a b =
     (if a = b then Some a else if a = 1 then Some b else if b = 1 then Some a else None)"

definition bget :: "matrix \<Rightarrow> nat \<Rightarrow> nat \<Rightarrow> real" where
  "bget m i j = rows m ! (if shape0 m = 1 then 0 else i) ! (if shape1 m = 1 then 0 else j)"

definition mat_binop :: "(real \<Rightarrow> real \<Rightarrow> real) \<Rightarrow> matrix \<Rightarrow> matrix \<Rightarrow> py_error + matrix" where
  "mat_binop f a b =
     (case broadcast_dim (shape0 a) (shape0 b) of
        None \<Rightarrow> Inl ValueError
      | Some r \<Rightarrow>
          (case broadcast_dim (shape1 a) (shape1 b) of
             None \<Rightarrow> Inl ValueError
           | Some c \<Rightarrow>
               Inr \<lparr>shape0 = r, shape1 = c,
                    rows = map (\<lambda>i. map (\<lambda>j. f (bget a i j) (bget b i j)) [0..<c]) [0..<r]\<rparr>))"

definition vget :: "real list \<Rightarrow> nat \<Rightarrow> real" where
  "vget v i = v ! (if length v = 1 then 0 else i)"

definition vec_binop :: "(real \<Rightarrow> real \<Rightarrow> real) \<Rightarrow> real list \<Rightarrow> real list \<Rightarrow> py_error + real list" where
  "vec_binop f a b =
     (case broadcast_dim (length a) (length b) of
        None \<Rightarrow> Inl ValueError
      | Some n \<Rightarrow> Inr (map (\<lambda>i. f (vget a i) (vget b i)) [0..<n]))"

text \<open>\<^verbatim>\<open>reshape(a, [-1])\<close> and \<^verbatim>\<open>reshape(a, [-1, 1])\<close>: row-major order.\<close>

definition reshape_flat :: "matrix \<Rightarrow> real list" where
  "reshape_flat m = concat (rows m)"

definition reshape_column :: "matrix \<Rightarrow> matrix" where
  "reshape_column m =
     \<lparr>shape0 = shape0 m * shape1 m, shape1 = 1, rows = map (\<lambda>v. [v]) (concat (rows m))\<rparr>"

text \<open>\<^verbatim>\<open>a[:, 0]\<close>: the first column; \<^verbatim>\<open>IndexError\<close> when the array has no column.\<close>

definition column0 :: "matrix \<Rightarrow> py_error + real list" where
  "column0 m = (if shape1 m = 0 then Inl IndexError else Inr (map (\<lambda>r. r ! 0) (rows m)))"

text \<open>
  \<^verbatim>\<open>a[i] = v\<close> on a two-dimensional array: \<open>v\<close> is broadcast to the row's length.
\<close>

definition set_row :: "matrix \<Rightarrow> nat \<Rightarrow> real list \<Rightarrow> py_error + matrix" where
  "set_row m i v =
     (if shape0 m \<le> i then Inl IndexError
      else if length v = shape1 m then Inr (m\<lparr>rows := (rows m)[i := v]\<rparr>)
      else if length v = 1 then Inr (m\<lparr>rows := (rows m)[i := replicate (shape1 m) (v ! 0)]\<rparr>)
      else Inl ValueError)"

text \<open>\<^verbatim>\<open>a[i, j] = v\<close>.\<close>

definition set_item :: "matrix \<Rightarrow> nat \<Rightarrow> nat \<Rightarrow> real \<Rightarrow> py_error + matrix" where
  "set_item m i j v =
     (if shape0 m \<le> i \<or> shape1 m \<le> j then Inl IndexError
      else Inr (m\<lparr>rows := (rows m)[i := (rows m ! i)[j := v]]\<rparr>))"

subsection \<open>Configuration, observations and the heap\<close>

text \<open>
  A configuration is the dictionary \<^verbatim>\<open>{camera_id, chain: {chain_id, before_chain,
  after_chain}}\<close>. The joint positions of a \<^verbatim>\<open>JointState\<close> are a Python list, a mutable
  object: the model keeps list objects in a heap and a \<^verbatim>\<open>JointState\<close> holds the address of
  its list. Allocation appends to the heap.
\<close>

record chain_config =
  chain_id :: string
  before_chain :: "string list"
  after_chain :: "string list"

record config =
  camera_id :: string
  chain :: chain_config

record image_point =
  pt_x :: real
  pt_y :: real

record camera_measurement =
  cam_camera_id :: string
  image_points :: "image_point list"

type_synonym heap = "real list list"

record joint_state =
  position :: nat

record chain_measurement =
  chn_chain_id :: string
  chain_state :: joint_state

record robot_measurement =
  M_cam_list :: "camera_measurement list"
  M_chain_list :: "chain_measurement list"

definition alloc :: "heap \<Rightarrow> real list \<Rightarrow> nat \<times> heap" where
  "alloc h v = (length h, h @ [v])"

text \<open>
  What \<^verbatim>\<open>update_config\<close> resolves from the robot parameters:
  \<^item> \<open>pixel_pts cs t\<close> stands for lines 113--116, \<^verbatim>\<open>project(P, fk(chain_state).I * target_pts)\<close>,
    as a function of the joint positions and the target points;
  \<^item> \<open>chain_M\<close> is \<^verbatim>\<open>_chain.calc_block._chain._M\<close>, the chain's link count;
  \<^item> \<open>cov_joint_angles\<close> is \<^verbatim>\<open>_chain.calc_block._chain._cov_dict['joint_angles']\<close>, as the
    array \<^verbatim>\<open>numpy.diag\<close> makes of it;
  \<^item> \<open>cov_u\<close>, \<open>cov_v\<close> are \<^verbatim>\<open>_camera._cov_dict['u']\<close> and \<^verbatim>\<open>['v']\<close>.
  Before \<^verbatim>\<open>update_config\<close> the attributes do not exist and reading them raises
  \<^verbatim>\<open>AttributeError\<close>.
\<close>

record robot_view =
  pixel_pts :: "real list \<Rightarrow> matrix \<Rightarrow> matrix"
  chain_M :: nat
  cov_joint_angles :: ndarray
  cov_u :: real
  cov_v :: real

record sensor =
  sensor_type :: string
  sensor_id :: string
  config_dict :: config
  M_cam :: camera_measurement
  M_chain :: chain_measurement
  view :: "robot_view option"

subsection \<open>CameraChainSensor\<close>

definition CameraChainSensor :: "config \<Rightarrow> camera_measurement \<Rightarrow> chain_measurement \<Rightarrow> sensor" where
  "CameraChainSensor cfg m_cam m_chain =
     \<lparr>sensor_type = ''camera'', sensor_id = camera_id cfg, config_dict = cfg,
      M_cam = m_cam, M_chain = m_chain, view = None\<rparr>"

definition update_config :: "sensor \<Rightarrow> robot_view \<Rightarrow> sensor" where
  "update_config s rv = s\<lparr>view := Some rv\<rparr>"

definition get_residual_length :: "sensor \<Rightarrow> nat" where
  "get_residual_length s = (let N = length (image_points (M_cam s)) in N * 2)"

definition get_measurement :: "sensor \<Rightarrow> matrix" where
  "get_measurement s = matrix_of_lists (map (\<lambda>pt. [pt_x pt, pt_y pt]) (image_points (M_cam s)))"

text \<open>\<^verbatim>\<open>_compute_expected(chain_state, target_pts)\<close>: the projected points, transposed.\<close>

definition compute_expected_of :: "sensor \<Rightarrow> heap \<Rightarrow> joint_state \<Rightarrow> matrix \<Rightarrow> py_error + matrix" where
  "compute_expected_of s h cs target_pts =
     (case view s of
        None \<Rightarrow> Inl AttributeError
      | Some rv \<Rightarrow> Inr (mat_T (pixel_pts rv (h ! position cs) target_pts)))"

definition compute_expected :: "sensor \<Rightarrow> heap \<Rightarrow> matrix \<Rightarrow> py_error + matrix" where
  "compute_expected s h target_pts = compute_expected_of s h (chain_state (M_chain s)) target_pts"

definition compute_residual :: "sensor \<Rightarrow> heap \<Rightarrow> matrix \<Rightarrow> py_error + real list" where
  "compute_residual s h target_pts =
     (let z_mat = get_measurement s in
      bind_err (compute_expected s h target_pts) (\<lambda>h_mat.
        if shape1 z_mat \<noteq> 2 then Inl AssertionError
        else if shape1 h_mat \<noteq> 2 then Inl AssertionError
        else if shape0 z_mat \<noteq> shape0 z_mat then Inl AssertionError
        else bind_err (mat_binop (-) h_mat z_mat) (\<lambda>d. column0 (reshape_column d))))"

text \<open>
  A \<^verbatim>\<open>for\<close> loop whose body may raise: the first exception ends the loop.
\<close>

fun for_each :: "('i \<Rightarrow> 'st \<Rightarrow> py_error + 'st) \<Rightarrow> 'i list \<Rightarrow> 'st \<Rightarrow> py_error + 'st" where
  "for_each body [] st = Inr st"
| "for_each body (k # ks) st = bind_err (body k st) (for_each body ks)"

text \<open>\<^verbatim>\<open>x.position[i] += d\<close> on the list object at address \<open>a\<close>.\<close>

definition iadd_item :: "heap \<Rightarrow> nat \<Rightarrow> nat \<Rightarrow> real \<Rightarrow> py_error + heap" where
  "iadd_item h a i d =
     (if length (h ! a) \<le> i then Inl IndexError
      else Inr (h[a := (h ! a)[i := h ! a ! i + d]]))"

definition epsilon :: real where
  "epsilon = 1 / 10 ^ 8"

text \<open>
  The body of the finite-difference loop (lines 131--134). The loop state is the local
  \<^verbatim>\<open>JointState\<close> \<open>x\<close>, the array \<open>Jt\<close> and the heap.
\<close>

definition fd_step ::
  "sensor \<Rightarrow> matrix \<Rightarrow> real list \<Rightarrow> nat \<Rightarrow> joint_state \<times> matrix \<times> heap
     \<Rightarrow> py_error + joint_state \<times> matrix \<times> heap" where
  "fd_step s target_pts f0 i st =
     (case st of (x, Jt, h) \<Rightarrow>
        (case alloc h (h ! position (chain_state (M_chain s))) of (a, h1) \<Rightarrow>
           let x1 = x\<lparr>position := a\<rparr> in
           bind_err (iadd_item h1 (position x1) i epsilon) (\<lambda>h2.
           bind_err (compute_expected_of s h2 x1 target_pts) (\<lambda>e.
           let fTest = reshape_flat e in
           bind_err (vec_binop (-) fTest f0) (\<lambda>d.
           bind_err (set_row Jt i (map (\<lambda>v. v / epsilon) d)) (\<lambda>Jt1.
           Inr (x1, Jt1, h2)))))))"

text \<open>The body of the camera-noise loop (lines 139--140).\<close>

definition cam_step :: "robot_view \<Rightarrow> nat \<Rightarrow> matrix \<Rightarrow> py_error + matrix" where
  "cam_step rv k cam_cov =
     bind_err (set_item cam_cov (2 * k) (2 * k) (cov_u rv)) (\<lambda>m.
     set_item m (2 * k + 1) (2 * k + 1) (cov_v rv))"

text \<open>
  \<^verbatim>\<open>compute_cov\<close>. The result is the covariance and the heap after the call. The division
  \<^verbatim>\<open>cam_cov.shape[0]/2\<close> is Python 2's integer division.
\<close>

definition compute_cov :: "sensor \<Rightarrow> heap \<Rightarrow> matrix \<Rightarrow> py_error + matrix \<times> heap" where
  "compute_cov s h target_pts =
     (let num_joints = length (h ! position (chain_state (M_chain s)));
          Jt = zeros num_joints (get_residual_length s)
      in case alloc h (h ! position (chain_state (M_chain s))) of (a, h1) \<Rightarrow>
         let x = \<lparr>position = a\<rparr> in
         bind_err (compute_expected_of s h1 x target_pts) (\<lambda>e0.
         let f0 = reshape_flat e0 in
         bind_err (for_each (fd_step s target_pts f0) [0..<num_joints] (x, Jt, h1)) (\<lambda>st.
         case st of (x', Jt', h') \<Rightarrow>
         (case view s of
            None \<Rightarrow> Inl AttributeError
          | Some rv \<Rightarrow>
              let cov_angles = np_diag (cov_joint_angles rv) in
              bind_err (mat_mul (mat_T Jt') (np_matrix (np_diag cov_angles))) (\<lambda>p.
              bind_err (mat_mul p Jt') (\<lambda>chain_cov.
              let cam_cov = zeros (shape0 chain_cov) (shape1 chain_cov) in
              bind_err (for_each (cam_step rv) [0..<shape0 cam_cov div 2] cam_cov) (\<lambda>cam_cov'.
              bind_err (mat_binop (+) chain_cov cam_cov') (\<lambda>cov.
              Inr (cov, h')))))))))"

text \<open>
  \<^verbatim>\<open>build_sparsity_dict\<close>. The dictionaries are maps; the masks are lists of Python ints.
\<close>

record sparsity =
  transforms :: "string \<rightharpoonup> int list"
  dh_chains :: "string \<rightharpoonup> int list list"
  rectified_cameras :: "string \<rightharpoonup> (string \<rightharpoonup> int)"

definition build_sparsity_dict :: "sensor \<Rightarrow> heap \<Rightarrow> py_error + sparsity" where
  "build_sparsity_dict s h =
     (let tr = fold (\<lambda>cur_transform_name d. d(cur_transform_name \<mapsto> [1, 1, 1, 1, 1, 1]))
                 (before_chain (chain (config_dict s)) @ after_chain (chain (config_dict s)))
                 Map.empty;
          cid = chain_id (chain (config_dict s))
      in case view s of
           None \<Rightarrow> Inl AttributeError
         | Some rv \<Rightarrow>
             let num_links = chain_M rv in
             if num_links \<noteq> length (h ! position (chain_state (M_chain s)))
             then Inl AssertionError
             else Inr \<lparr>transforms = tr,
                       dh_chains = [cid \<mapsto> replicate num_links [1, 1, 1, 1]],
                       rectified_cameras = [sensor_id s \<mapsto> [''baseline_shift'' \<mapsto> 1]]\<rparr>)"

subsection \<open>CameraChainBundler\<close>

record bundler =
  valid_configs :: "config list"

text \<open>\<^verbatim>\<open>xs.index(v)\<close>: the first position of \<open>v\<close>, \<^verbatim>\<open>ValueError\<close> when it is absent.\<close>

definition py_index :: "'a list \<Rightarrow> 'a \<Rightarrow> py_error + nat" where
  "py_index xs v =
     (if v \<in> set xs then Inr (length (takeWhile (\<lambda>x. x \<noteq> v) xs)) else Inl ValueError)"

definition py_nth :: "'a list \<Rightarrow> nat \<Rightarrow> py_error + 'a" where
  "py_nth xs i = (if i < length xs then Inr (xs ! i) else Inl IndexError)"

definition build_blocks_step ::
  "robot_measurement \<Rightarrow> config \<Rightarrow> sensor list \<Rightarrow> py_error + sensor list" where
  "build_blocks_step M_robot cur_config sensors =
     (if camera_id cur_config \<in> set (map cam_camera_id (M_cam_list M_robot)) \<and>
         chain_id (chain cur_config) \<in> set (map chn_chain_id (M_chain_list M_robot))
      then
        bind_err (py_index (map cam_camera_id (M_cam_list M_robot)) (camera_id cur_config)) (\<lambda>i.
        bind_err (py_nth (M_cam_list M_robot) i) (\<lambda>m_cam.
        bind_err (py_index (map chn_chain_id (M_chain_list M_robot)) (chain_id (chain cur_config))) (\<lambda>j.
        bind_err (py_nth (M_chain_list M_robot) j) (\<lambda>m_chain.
        Inr (sensors @ [CameraChainSensor cur_config m_cam m_chain])))))
      else Inr sensors)"

definition build_blocks :: "bundler \<Rightarrow> robot_measurement \<Rightarrow> py_error + sensor list" where
  "build_blocks b M_robot = for_each (build_blocks_step M_robot) (valid_configs b) []"

subsection \<open>Contracts of the collaborators and notions used in the statements\<close>

text \<open>
  The comment above \<^verbatim>\<open>compute_expected\<close> documents the projection: for a \<open>4 \<times> N\<close> matrix of
  target points it yields \<open>N\<close> pixel pairs. In terms of the projected points before the
  transposition: a well-formed matrix of two rows and as many columns as the target.
\<close>

definition projection_contract :: "robot_view \<Rightarrow> bool" where
  "projection_contract rv =
     (\<forall>cs t. wf_matrix (pixel_pts rv cs t) \<and> shape0 (pixel_pts rv cs t) = 2 \<and>
             shape1 (pixel_pts rv cs t) = shape1 t)"

definition symmetric_matrix :: "matrix \<Rightarrow> bool" where
  "symmetric_matrix m =
     (shape0 m = shape1 m \<and>
      (\<forall>i < shape0 m. \<forall>j < shape0 m. rows m ! i ! j = rows m ! j ! i))"

text \<open>
  Notions for the covariance: the flattened expected pixels as a function of the joint
  positions, the forward-difference quotients of one joint, the camera-noise diagonal, the
  variances that the two applications of \<^verbatim>\<open>diag\<close> leave, and the shapes for which the
  product of line 136 is defined.
\<close>

definition expected_flat :: "robot_view \<Rightarrow> matrix \<Rightarrow> real list \<Rightarrow> real list" where
  "expected_flat rv target_pts cs = reshape_flat (mat_T (pixel_pts rv cs target_pts))"

definition jacobian_row :: "robot_view \<Rightarrow> matrix \<Rightarrow> real list \<Rightarrow> nat \<Rightarrow> real list" where
  "jacobian_row rv target_pts pos k =
     map (\<lambda>i. (expected_flat rv target_pts (pos[k := pos ! k + epsilon]) ! i
                 - expected_flat rv target_pts pos ! i) / epsilon)
         [0..<length (expected_flat rv target_pts pos)]"

definition camera_noise :: "robot_view \<Rightarrow> nat \<Rightarrow> nat \<Rightarrow> real" where
  "camera_noise rv i j = (if i = j then (if even i then cov_u rv else cov_v rv) else 0)"

definition variances_of :: "ndarray \<Rightarrow> real list" where
  "variances_of cfg =
     (case cfg of Arr1 v \<Rightarrow> v
      | Arr2 m \<Rightarrow> map (\<lambda>i. rows m ! i ! i) [0..<min (shape0 m) (shape1 m)])"

definition product_defined :: "ndarray \<Rightarrow> nat \<Rightarrow> bool" where
  "product_defined cfg J =
     (case cfg of Arr1 v \<Rightarrow> J = 1 \<and> length v = 1
      | Arr2 m \<Rightarrow> min (shape0 m) (shape1 m) = J)"

text \<open>
  A catalog entry matches a measurement when both of its identifiers occur there; the
  sensor of a matching entry binds the first observation of each identifier.
\<close>

definition config_matches :: "robot_measurement \<Rightarrow> config \<Rightarrow> bool" where
  "config_matches M_robot c =
     (camera_id c \<in> set (map cam_camera_id (M_cam_list M_robot)) \<and>
      chain_id (chain c) \<in> set (map chn_chain_id (M_chain_list M_robot)))"

definition sensor_for :: "robot_measurement \<Rightarrow> config \<Rightarrow> sensor" where
  "sensor_for M_robot c =
     CameraChainSensor c
       (the (find (\<lambda>x. cam_camera_id x = camera_id c) (M_cam_list M_robot)))
       (the (find (\<lambda>x. chn_chain_id x = chain_id (chain c)) (M_chain_list M_robot)))"

subsection \<open>Concrete data\<close>

text \<open>
  A catalog of two entries, and a sensor for the first of them whose projection sends every
  target point to the pixel \<open>(q, 2 q)\<close>, \<open>q\<close> the sum of the joint positions. The image
  points, the link count and the configured joint-angle covariance vary.
\<close>

definition ex_config :: config where
  "ex_config = \<lparr>camera_id = ''cam1'',
                 chain = \<lparr>chain_id = ''armL'', before_chain = [''mount''], after_chain = []\<rparr>\<rparr>"

definition ex_config2 :: config where
  "ex_config2 = \<lparr>camera_id = ''cam2'',
                  chain = \<lparr>chain_id = ''armR'', before_chain = [], after_chain = []\<rparr>\<rparr>"

definition ex_pixel_pts :: "real list \<Rightarrow> matrix \<Rightarrow> matrix" where
  "ex_pixel_pts cs t =
     \<lparr>shape0 = 2, shape1 = shape1 t,
      rows = [replicate (shape1 t) (sum_list cs), replicate (shape1 t) (2 * sum_list cs)]\<rparr>"

definition ex_view :: "nat \<Rightarrow> ndarray \<Rightarrow> robot_view" where
  "ex_view links cfg =
     \<lparr>pixel_pts = ex_pixel_pts, chain_M = links, cov_joint_angles = cfg, cov_u = 1, cov_v = 2\<rparr>"

definition ex_cam :: "image_point list \<Rightarrow> camera_measurement" where
  "ex_cam pts = \<lparr>cam_camera_id = ''cam1'', image_points = pts\<rparr>"

definition ex_chain :: chain_measurement where
  "ex_chain = \<lparr>chn_chain_id = ''armL'', chain_state = \<lparr>position = 0\<rparr>\<rparr>"

definition ex_sensor :: "image_point list \<Rightarrow> nat \<Rightarrow> ndarray \<Rightarrow> sensor" where
  "ex_sensor pts links cfg =
     update_config (CameraChainSensor ex_config (ex_cam pts) ex_chain) (ex_view links cfg)"

definition ex_target :: "nat \<Rightarrow> matrix" where
  "ex_target n = \<lparr>shape0 = 4, shape1 = n,
                   rows = [replicate n 0, replicate n 0, replicate n 1, replicate n 1]\<rparr>"

definition ex_point :: image_point where
  "ex_point = \<lparr>pt_x = 1, pt_y = 5\<rparr>"

definition ex_one_joint :: sensor where
  "ex_one_joint = ex_sensor [ex_point] 1 (Arr1 [4])"

definition ex_empty :: sensor where
  "ex_empty = ex_sensor [] 1 (Arr1 [4])"

definition ex_fit :: sensor where
  "ex_fit = ex_sensor [\<lparr>pt_x = 3, pt_y = 6\<rparr>] 1 (Arr1 [4])"

definition ex_two_joints :: sensor where
  "ex_two_joints = ex_sensor [ex_point] 2 (Arr1 [4, 9])"

definition ex_no_joints :: sensor where
  "ex_no_joints = ex_sensor [ex_point] 0 (Arr1 [])"

definition ex_three_links :: sensor where
  "ex_three_links = ex_sensor [ex_point] 3 (Arr1 [4, 4, 4])"

definition ex_measurement :: robot_measurement where
  "ex_measurement =
     \<lparr>M_cam_list = [ex_cam [ex_point], \<lparr>cam_camera_id = ''cam2'', image_points = []\<rparr>],
      M_chain_list = [ex_chain, \<lparr>chn_chain_id = ''armR'', chain_state = \<lparr>position = 1\<rparr>\<rparr>]\<rparr>"

lemmas ex_defs =
  ex_point_def ex_one_joint_def ex_empty_def ex_fit_def ex_two_joints_def ex_no_joints_def
  ex_three_links_def ex_measurement_def
  ex_sensor_def update_config_def CameraChainSensor_def ex_view_def ex_pixel_pts_def
  ex_target_def ex_cam_def ex_chain_def ex_config_def ex_config2_def

lemmas residual_defs =
  compute_residual_def get_measurement_def matrix_of_lists_def compute_expected_def
  compute_expected_of_def mat_T_def mat_binop_def broadcast_dim_def bget_def
  reshape_column_def column0_def get_residual_length_def

lemmas cov_defs =
  compute_cov_def get_residual_length_def alloc_def fd_step_def iadd_item_def
  compute_expected_of_def mat_T_def mat_binop_def mat_mul_def vec_binop_def vget_def
  set_row_def set_item_def cam_step_def zeros_def reshape_flat_def broadcast_dim_def
  bget_def epsilon_def

section \<open>Auxiliary facts\<close>

lemma bind_err_Inr [simp]: "bind_err (Inr v) f = f v"
  by (simp add: bind_err_def)

lemma bind_err_Inl [simp]: "bind_err (Inl e) f = Inl e"
  by (simp add: bind_err_def)

lemma bind_err_eq_Inr:
  "bind_err r f = Inr y \<longleftrightarrow> (\<exists>v. r = Inr v \<and> f v = Inr y)"
  by (cases r) simp_all

lemma wf_matrix_nth:
  "wf_matrix m \<Longrightarrow> i < shape0 m \<Longrightarrow> length (rows m ! i) = shape1 m"
  by (simp add: wf_matrix_def list_all_length)

lemma wf_mat_T [simp]: "wf_matrix (mat_T m)"
  by (simp add: wf_matrix_def mat_T_def list_all_length)

lemma shape_mat_T [simp]: "shape0 (mat_T m) = shape1 m" "shape1 (mat_T m) = shape0 m"
  by (simp_all add: mat_T_def)

lemma nth_mat_T:
  "i < shape1 m \<Longrightarrow> j < shape0 m \<Longrightarrow> rows (mat_T m) ! i ! j = rows m ! j ! i"
  by (simp add: mat_T_def)

lemma get_measurement_nonempty:
  assumes "image_points (M_cam s) \<noteq> []"
  shows "shape0 (get_measurement s) = length (image_points (M_cam s))"
    and "shape1 (get_measurement s) = 2"
    and "rows (get_measurement s) = map (\<lambda>pt. [pt_x pt, pt_y pt]) (image_points (M_cam s))"
  using assms by (simp_all add: get_measurement_def matrix_of_lists_def hd_map)

lemma get_measurement_empty:
  assumes "image_points (M_cam s) = []"
  shows "get_measurement s = \<lparr>shape0 = 1, shape1 = 0, rows = [[]]\<rparr>"
  using assms by (simp add: get_measurement_def matrix_of_lists_def)

lemma shape1_get_measurement:
  "shape1 (get_measurement s) = 2 \<longleftrightarrow> image_points (M_cam s) \<noteq> []"
  by (cases "image_points (M_cam s) = []")
     (simp_all add: get_measurement_nonempty get_measurement_empty)

lemma column0_reshape_column [simp]:
  "column0 (reshape_column d) = Inr (concat (rows d))"
  by (simp add: column0_def reshape_column_def comp_def)

lemma mat_binop_neq_assert: "mat_binop f a b \<noteq> Inl AssertionError"
  by (simp add: mat_binop_def split: option.splits)


lemma upt_2: "[0..<2] = [0, Suc 0]"
  by (simp add: upt_rec)

lemma concat_pairs_length:
  "length (concat (map (\<lambda>x. [f x, g x]) xs)) = 2 * length xs"
  by (induction xs) simp_all

lemma concat_pairs_nth:
  "i < length xs \<Longrightarrow>
     concat (map (\<lambda>x. [f x, g x]) xs) ! (2 * i) = f (xs ! i) \<and>
     concat (map (\<lambda>x. [f x, g x]) xs) ! (2 * i + 1) = g (xs ! i)"
proof (induction xs arbitrary: i)
  case Nil
  then show ?case by simp
next
  case (Cons a xs)
  show ?case
  proof (cases i)
    case 0
    then show ?thesis by simp
  next
    case (Suc k)
    with Cons.prems have "k < length xs" by simp
    from Cons.IH[OF this] Suc show ?thesis by simp
  qed
qed

lemma bget_plain:
  "i < shape0 m \<Longrightarrow> j < shape1 m \<Longrightarrow> bget m i j = rows m ! i ! j"
  by (auto simp: bget_def)

lemma mat_binop_same_shape:
  assumes "shape0 a = shape0 b" "shape1 a = shape1 b"
  shows "mat_binop f a b =
     Inr \<lparr>shape0 = shape0 a, shape1 = shape1 a,
          rows = map (\<lambda>i. map (\<lambda>j. f (rows a ! i ! j) (rows b ! i ! j)) [0..<shape1 a])
                     [0..<shape0 a]\<rparr>"
  using assms by (simp add: mat_binop_def broadcast_dim_def bget_plain)

lemma compute_residual_reaches_subtraction:
  assumes "compute_expected s h target_pts = Inr h_mat"
    and "shape1 h_mat = 2" and "image_points (M_cam s) \<noteq> []"
  shows "compute_residual s h target_pts =
           bind_err (mat_binop (-) h_mat (get_measurement s)) (\<lambda>d. Inr (concat (rows d)))"
  using assms by (simp add: compute_residual_def Let_def get_measurement_nonempty)

lemma compute_expected_contract:
  assumes "view s = Some rv" "projection_contract rv"
  shows "\<exists>h_mat. compute_expected s h target_pts = Inr h_mat \<and> wf_matrix h_mat \<and>
           shape0 h_mat = shape1 target_pts \<and> shape1 h_mat = 2"
  using assms
  by (simp add: compute_expected_def compute_expected_of_def projection_contract_def)

lemma concat_zero_pairs:
  "concat (map (\<lambda>x. [0::real, 0]) xs) = replicate (length xs * 2) 0"
  by (induction xs) simp_all

lemma for_each_invariant:
  assumes "for_each body ks st = Inr st'" and "P st"
    and "\<And>k a b. k \<in> set ks \<Longrightarrow> P a \<Longrightarrow> body k a = Inr b \<Longrightarrow> P b"
  shows "P st'"
  using assms
proof (induction ks arbitrary: st)
  case Nil
  then show ?case by simp
next
  case (Cons k ks)
  from Cons.prems(1) obtain mid where mid: "body k st = Inr mid" "for_each body ks mid = Inr st'"
    by (auto simp: bind_err_eq_Inr)
  have pm: "P mid" using Cons.prems(3)[of k st mid] Cons.prems(2) mid(1) by simp
  show ?case
  proof (rule Cons.IH[OF mid(2) pm])
    fix j a b
    assume "j \<in> set ks" "P a" "body j a = Inr b"
    then show "P b" using Cons.prems(3)[of j a b] by simp
  qed
qed

lemma set_row_Inr:
  assumes "set_row m i v = Inr m'"
  shows "shape0 m' = shape0 m" "shape1 m' = shape1 m" "wf_matrix m \<Longrightarrow> wf_matrix m'"
  using assms
  by (auto simp: set_row_def wf_matrix_def list_all_length nth_list_update split: if_splits)

lemma fd_step_Inr:
  assumes "fd_step s target_pts f0 i (x, Jt, h) = Inr (x', Jt', h')"
  shows "shape0 Jt' = shape0 Jt" "shape1 Jt' = shape1 Jt" "wf_matrix Jt \<Longrightarrow> wf_matrix Jt'"
    and "\<exists>v. h' = h @ [v]"
proof -
  from assms obtain h2 e d where
    h2: "iadd_item (h @ [h ! position (chain_state (M_chain s))]) (length h) i epsilon = Inr h2"
    and sr: "set_row Jt i (map (\<lambda>v. v / epsilon) d) = Inr Jt'" and hh: "h' = h2"
    by (auto simp: fd_step_def alloc_def Let_def bind_err_eq_Inr)
  from sr show "shape0 Jt' = shape0 Jt" "shape1 Jt' = shape1 Jt" "wf_matrix Jt \<Longrightarrow> wf_matrix Jt'"
    by (simp_all add: set_row_Inr)
  from h2 hh show "\<exists>v. h' = h @ [v]"
    by (auto simp: iadd_item_def split: if_splits)
qed

lemma fd_loop_Inr:
  assumes "for_each (fd_step s target_pts f0) ks (x, Jt, h) = Inr (x', Jt', h')"
  shows "shape0 Jt' = shape0 Jt \<and> shape1 Jt' = shape1 Jt \<and> (wf_matrix Jt \<longrightarrow> wf_matrix Jt') \<and>
         length h \<le> length h' \<and> take (length h) h' = h"
proof -
  let ?P = "\<lambda>st. case st of (y, m, g) \<Rightarrow>
      shape0 m = shape0 Jt \<and> shape1 m = shape1 Jt \<and> (wf_matrix Jt \<longrightarrow> wf_matrix m) \<and>
      length h \<le> length g \<and> take (length h) g = h"
  have "?P (x', Jt', h')"
  proof (rule for_each_invariant[OF assms, where P = ?P])
    show "?P (x, Jt, h)" by simp
  next
    fix k a b
    assume a: "?P a" and b: "fd_step s target_pts f0 k a = Inr b"
    obtain y m g where [simp]: "a = (y, m, g)" by (cases a)
    obtain y' m' g' where [simp]: "b = (y', m', g')" by (cases b)
    from fd_step_Inr[OF b[simplified]] a show "?P b" by auto
  qed
  then show ?thesis by simp
qed

lemma compute_cov_Inr:
  assumes "compute_cov s h target_pts = Inr (cov, h')"
  obtains x' Jt' rv p chain_cov cam_cov' where
    "for_each (fd_step s target_pts
        (reshape_flat (mat_T (pixel_pts rv (h ! position (chain_state (M_chain s))) target_pts))))
        [0..<length (h ! position (chain_state (M_chain s)))]
        (\<lparr>position = length h\<rparr>, zeros (length (h ! position (chain_state (M_chain s)))) (get_residual_length s),
         h @ [h ! position (chain_state (M_chain s))]) = Inr (x', Jt', h')"
    and "view s = Some rv"
    and "mat_mul (mat_T Jt') (np_matrix (np_diag (np_diag (cov_joint_angles rv)))) = Inr p"
    and "mat_mul p Jt' = Inr chain_cov"
    and "for_each (cam_step rv) [0..<shape0 chain_cov div 2] (zeros (shape0 chain_cov) (shape1 chain_cov)) = Inr cam_cov'"
    and "mat_binop (+) chain_cov cam_cov' = Inr cov"
  using assms
  by (auto simp: compute_cov_def alloc_def Let_def bind_err_eq_Inr compute_expected_of_def zeros_def
      split: option.splits prod.splits)

lemma sum_list_upt: "(\<Sum>k\<leftarrow>[0..<n]. f k) = (\<Sum>k<n. f k)"
  by (simp add: interv_sum_list_conv_sum_set_nat atLeast0LessThan)

lemma mat_mul_Inr:
  assumes "mat_mul a b = Inr c"
  shows "shape1 a = shape0 b" "shape0 c = shape0 a" "shape1 c = shape1 b" "wf_matrix c"
    and "\<And>i j. i < shape0 a \<Longrightarrow> j < shape1 b \<Longrightarrow>
           rows c ! i ! j = (\<Sum>k<shape1 a. rows a ! i ! k * rows b ! k ! j)"
  using assms
  by (auto simp: mat_mul_def wf_matrix_def list_all_length sum_list_upt split: if_splits)

lemma double_diag_square:
  assumes "mat_mul a (np_matrix (np_diag (np_diag cfg))) = Inr p" and "mat_mul p Jt = Inr c"
    and "shape1 a = shape0 Jt"
  shows "symmetric_matrix (np_matrix (np_diag (np_diag cfg))) \<and>
         shape0 (np_matrix (np_diag (np_diag cfg))) = shape0 Jt"
proof (cases cfg)
  case (Arr1 v)
  let ?B = "np_matrix (np_diag (np_diag cfg))"
  have sh: "shape0 ?B = 1" "shape1 ?B = length v" using Arr1 by simp_all
  from mat_mul_Inr(1)[OF assms(1)] assms(3) sh have j: "shape0 Jt = 1" by simp
  from mat_mul_Inr(3)[OF assms(1)] mat_mul_Inr(1)[OF assms(2)] sh j have "length v = 1" by simp
  with sh j show ?thesis by (simp add: symmetric_matrix_def)
next
  case (Arr2 m)
  let ?B = "np_matrix (np_diag (np_diag cfg))"
  have sh: "shape0 ?B = min (shape0 m) (shape1 m)" "shape1 ?B = min (shape0 m) (shape1 m)"
    using Arr2 by simp_all
  have sym: "symmetric_matrix ?B" using Arr2 by (simp add: symmetric_matrix_def)
  from mat_mul_Inr(1)[OF assms(1)] assms(3) sh sym show ?thesis by simp
qed

lemma congruence_symmetric:
  assumes ab: "mat_mul (mat_T Jt) B = Inr p" and pc: "mat_mul p Jt = Inr c"
    and sym: "symmetric_matrix B" and shB: "shape0 B = shape0 Jt"
  shows "symmetric_matrix c \<and> wf_matrix c \<and> shape0 c = shape1 Jt"
proof -
  let ?J = "shape0 Jt" and ?n = "shape1 Jt"
  have shp: "shape0 p = ?n" "shape1 p = ?J"
    using mat_mul_Inr(2,3)[OF ab] sym shB by (simp_all add: symmetric_matrix_def)
  have shc: "shape0 c = ?n" "shape1 c = ?n"
    using mat_mul_Inr(2,3)[OF pc] shp by simp_all
  have pij: "rows p ! i ! k = (\<Sum>l<?J. rows Jt ! l ! i * rows B ! l ! k)"
    if "i < ?n" "k < ?J" for i k
  proof -
    have "rows p ! i ! k = (\<Sum>l<?J. rows (mat_T Jt) ! i ! l * rows B ! l ! k)"
      using mat_mul_Inr(5)[OF ab, of i k] that sym shB by (simp add: symmetric_matrix_def)
    also have "\<dots> = (\<Sum>l<?J. rows Jt ! l ! i * rows B ! l ! k)"
      using that by (intro sum.cong) (simp_all add: nth_mat_T)
    finally show ?thesis .
  qed
  have cij: "rows c ! i ! j = (\<Sum>k<?J. \<Sum>l<?J. rows Jt ! l ! i * rows B ! l ! k * rows Jt ! k ! j)"
    if "i < ?n" "j < ?n" for i j
  proof -
    have "rows c ! i ! j = (\<Sum>k<?J. rows p ! i ! k * rows Jt ! k ! j)"
      using mat_mul_Inr(5)[OF pc, of i j] that shp by simp
    also have "\<dots> = (\<Sum>k<?J. (\<Sum>l<?J. rows Jt ! l ! i * rows B ! l ! k) * rows Jt ! k ! j)"
      using that by (intro sum.cong) (simp_all add: pij)
    also have "\<dots> = (\<Sum>k<?J. \<Sum>l<?J. rows Jt ! l ! i * rows B ! l ! k * rows Jt ! k ! j)"
      by (simp add: sum_distrib_right)
    finally show ?thesis .
  qed
  have "rows c ! i ! j = rows c ! j ! i" if "i < ?n" "j < ?n" for i j
  proof -
    have "rows c ! i ! j = (\<Sum>k<?J. \<Sum>l<?J. rows Jt ! l ! i * rows B ! l ! k * rows Jt ! k ! j)"
      using that by (rule cij)
    also have "\<dots> = (\<Sum>l<?J. \<Sum>k<?J. rows Jt ! l ! i * rows B ! l ! k * rows Jt ! k ! j)"
      by (rule sum.swap)
    also have "\<dots> = (\<Sum>l<?J. \<Sum>k<?J. rows Jt ! k ! j * rows B ! k ! l * rows Jt ! l ! i)"
    proof (intro sum.cong refl)
      fix l k assume "l \<in> {..<?J}" "k \<in> {..<?J}"
      then have "rows B ! l ! k = rows B ! k ! l"
        using sym shB by (simp add: symmetric_matrix_def)
      then show "rows Jt ! l ! i * rows B ! l ! k * rows Jt ! k ! j =
                 rows Jt ! k ! j * rows B ! k ! l * rows Jt ! l ! i"
        by simp
    qed
    also have "\<dots> = rows c ! j ! i"
      using that by (simp add: cij)
    finally show ?thesis .
  qed
  then show ?thesis
    using shc mat_mul_Inr(4)[OF pc] by (simp add: symmetric_matrix_def)
qed

lemma wf_zeros [simp]: "wf_matrix (zeros r c)"
  by (simp add: zeros_def wf_matrix_def list_all_length)

lemma shape_zeros [simp]: "shape0 (zeros r c) = r" "shape1 (zeros r c) = c"
  by (simp_all add: zeros_def)

lemma nth_zeros: "i < r \<Longrightarrow> j < c \<Longrightarrow> rows (zeros r c) ! i ! j = 0"
  by (simp add: zeros_def)

lemma symmetric_zeros [simp]: "symmetric_matrix (zeros n n)"
  by (simp add: symmetric_matrix_def nth_zeros)

lemma set_item_Inr:
  assumes "set_item m i j v = Inr m'" and "wf_matrix m"
  shows "shape0 m' = shape0 m" "shape1 m' = shape1 m" "wf_matrix m'"
    and "\<And>a b. a < shape0 m \<Longrightarrow> b < shape1 m \<Longrightarrow>
           rows m' ! a ! b = (if a = i \<and> b = j then v else rows m ! a ! b)"
  using assms
  by (auto simp: set_item_def wf_matrix_def list_all_length nth_list_update split: if_splits)

lemma cam_step_Inr:
  assumes "cam_step rv k m = Inr m'" and "wf_matrix m"
  shows "shape0 m' = shape0 m" "shape1 m' = shape1 m" "wf_matrix m'"
    and "\<And>a b. a < shape0 m \<Longrightarrow> b < shape1 m \<Longrightarrow>
           rows m' ! a ! b =
             (if a = 2 * k + 1 \<and> b = 2 * k + 1 then cov_v rv
              else if a = 2 * k \<and> b = 2 * k then cov_u rv else rows m ! a ! b)"
proof -
  from assms(1) obtain m1 where
    m1: "set_item m (2 * k) (2 * k) (cov_u rv) = Inr m1"
    and m2: "set_item m1 (2 * k + 1) (2 * k + 1) (cov_v rv) = Inr m'"
    by (auto simp: cam_step_def bind_err_eq_Inr)
  note a = set_item_Inr[OF m1 assms(2)]
  note b = set_item_Inr[OF m2 a(3)]
  show "shape0 m' = shape0 m" "shape1 m' = shape1 m" "wf_matrix m'"
    using a b by simp_all
  fix x y assume "x < shape0 m" "y < shape1 m"
  then show "rows m' ! x ! y =
             (if x = 2 * k + 1 \<and> y = 2 * k + 1 then cov_v rv
              else if x = 2 * k \<and> y = 2 * k then cov_u rv else rows m ! x ! y)"
    using a b by simp
qed

lemma cam_loop_symmetric:
  assumes "for_each (cam_step rv) ks m = Inr m'" and "wf_matrix m" and "symmetric_matrix m"
  shows "wf_matrix m' \<and> symmetric_matrix m' \<and> shape0 m' = shape0 m"
proof -
  let ?P = "\<lambda>a. wf_matrix a \<and> symmetric_matrix a \<and> shape0 a = shape0 m"
  show ?thesis
  proof (rule for_each_invariant[OF assms(1), where P = ?P])
    show "?P m" using assms by simp
  next
    fix k a b
    assume a: "?P a" and b: "cam_step rv k a = Inr b"
    note f = cam_step_Inr[OF b]
    from a f show "?P b"
      by (auto simp: symmetric_matrix_def)
  qed
qed

lemma add_symmetric:
  assumes "mat_binop (+) a b = Inr c" and "symmetric_matrix a" and "symmetric_matrix b"
    and "shape0 a = shape0 b"
  shows "symmetric_matrix c"
proof -
  have "shape1 a = shape1 b" using assms by (simp add: symmetric_matrix_def)
  from mat_binop_same_shape[OF assms(4) this, of "(+)"] assms show ?thesis
    by (auto simp: symmetric_matrix_def)
qed

lemma py_index_first:
  assumes "v \<in> set (map f xs)"
  shows "\<exists>i. py_index (map f xs) v = Inr i \<and> i < length xs \<and>
           find (\<lambda>x. f x = v) xs = Some (xs ! i)"
  using assms
proof (induction xs)
  case Nil
  then show ?case by simp
next
  case (Cons a xs)
  show ?case
  proof (cases "f a = v")
    case True
    then show ?thesis by (simp add: py_index_def)
  next
    case False
    with Cons.prems have "v \<in> set (map f xs)" by auto
    from Cons.IH[OF this] obtain i where
      "py_index (map f xs) v = Inr i" "i < length xs" "find (\<lambda>x. f x = v) xs = Some (xs ! i)"
      by blast
    with False show ?thesis
      by (auto simp: py_index_def split: if_splits intro!: exI[of _ "Suc i"])
  qed
qed

lemma build_blocks_step_eq:
  "build_blocks_step M_robot c acc =
     Inr (if config_matches M_robot c then acc @ [sensor_for M_robot c] else acc)"
proof (cases "config_matches M_robot c")
  case True
  then have a: "camera_id c \<in> set (map cam_camera_id (M_cam_list M_robot))"
    and b: "chain_id (chain c) \<in> set (map chn_chain_id (M_chain_list M_robot))"
    by (simp_all add: config_matches_def)
  from py_index_first[OF a] obtain i where
    i: "py_index (map cam_camera_id (M_cam_list M_robot)) (camera_id c) = Inr i"
       "i < length (M_cam_list M_robot)"
       "find (\<lambda>x. cam_camera_id x = camera_id c) (M_cam_list M_robot) = Some (M_cam_list M_robot ! i)"
    by blast
  from py_index_first[OF b] obtain j where
    j: "py_index (map chn_chain_id (M_chain_list M_robot)) (chain_id (chain c)) = Inr j"
       "j < length (M_chain_list M_robot)"
       "find (\<lambda>x. chn_chain_id x = chain_id (chain c)) (M_chain_list M_robot)
          = Some (M_chain_list M_robot ! j)"
    by blast
  from True a b i j show ?thesis
    by (simp add: build_blocks_step_def py_nth_def sensor_for_def)
next
  case False
  then show ?thesis
    by (auto simp: build_blocks_step_def config_matches_def)
qed

lemma build_blocks_loop:
  "for_each (build_blocks_step M_robot) cs acc =
     Inr (acc @ map (sensor_for M_robot) (filter (config_matches M_robot) cs))"
  by (induction cs arbitrary: acc) (simp_all add: build_blocks_step_eq)

lemma fold_map_upd:
  "fold (\<lambda>k d. d(k \<mapsto> v)) xs m = (\<lambda>k. if k \<in> set xs then Some v else m k)"
  by (induction xs arbitrary: m) (auto simp: fun_eq_iff)

lemma compute_cov_vector_config:
  assumes "compute_cov s h target_pts = Inr (cov, h')" and "view s = Some rv"
    and "cov_joint_angles rv = Arr1 v"
  shows "length (h ! position (chain_state (M_chain s))) = 1 \<and> length v = 1"
proof -
  let ?J = "length (h ! position (chain_state (M_chain s)))"
  from compute_cov_Inr[OF assms(1)] assms(2) obtain x' Jt' p chain_cov f0 where
    loop: "for_each (fd_step s target_pts f0) [0..<?J]
        (\<lparr>position = length h\<rparr>, zeros ?J (get_residual_length s),
         h @ [h ! position (chain_state (M_chain s))]) = Inr (x', Jt', h')"
    and pr: "mat_mul (mat_T Jt') (np_matrix (np_diag (np_diag (cov_joint_angles rv)))) = Inr p"
        "mat_mul p Jt' = Inr chain_cov"
    by (metis option.inject)
  from fd_loop_Inr[OF loop] have J: "shape0 Jt' = ?J" by simp
  from mat_mul_Inr(1)[OF pr(1)] assms(3) J have "?J = 1" by simp
  moreover from mat_mul_Inr(3)[OF pr(1)] mat_mul_Inr(1)[OF pr(2)] assms(3) J calculation
  have "length v = 1" by simp
  ultimately show ?thesis by simp
qed

lemma length_concat_map_upt:
  "length (concat (map (\<lambda>j. map (g j) [0..<r]) xs)) = length xs * r"
  by (induction xs) simp_all

lemma length_expected_flat:
  assumes "projection_contract rv"
  shows "length (expected_flat rv target_pts cs) = shape1 target_pts * 2"
  using assms
  by (simp add: expected_flat_def reshape_flat_def mat_T_def length_concat_map_upt
      projection_contract_def)

lemma vec_binop_same_length:
  assumes "length a = length b"
  shows "vec_binop f a b = Inr (map (\<lambda>i. f (a ! i) (b ! i)) [0..<length a])"
  using assms by (auto simp: vec_binop_def broadcast_dim_def vget_def)

lemma fd_step_total:
  assumes v: "view s = Some rv" and c: "projection_contract rv"
    and p: "position (chain_state (M_chain s)) < length g"
    and pos: "g ! position (chain_state (M_chain s)) = pos"
    and k: "k < length pos" "k < shape0 Jt"
    and f0: "f0 = expected_flat rv target_pts pos"
    and w: "shape1 Jt = shape1 target_pts * 2"
  shows "fd_step s target_pts f0 k (x, Jt, g) =
           Inr (x\<lparr>position := length g\<rparr>,
                Jt\<lparr>rows := (rows Jt)[k := jacobian_row rv target_pts pos k]\<rparr>,
                g @ [pos[k := pos ! k + epsilon]])"
proof -
  let ?pk = "pos[k := pos ! k + epsilon]"
  have i: "iadd_item (g @ [pos]) (length g) k epsilon = Inr (g @ [?pk])"
    using k by (simp add: iadd_item_def)
  have e: "compute_expected_of s (g @ [?pk]) (x\<lparr>position := length g\<rparr>) target_pts
             = Inr (mat_T (pixel_pts rv ?pk target_pts))"
    using v by (simp add: compute_expected_of_def)
  have l: "length (expected_flat rv target_pts ?pk) = length f0"
    using c f0 by (simp add: length_expected_flat)
  have d: "vec_binop (-) (expected_flat rv target_pts ?pk) f0 =
             Inr (map (\<lambda>i. expected_flat rv target_pts ?pk ! i - f0 ! i) [0..<length f0])"
    using vec_binop_same_length[OF l, of "(-)"] l by simp
  have r: "set_row Jt k (map (\<lambda>v. v / epsilon)
              (map (\<lambda>i. expected_flat rv target_pts ?pk ! i - f0 ! i) [0..<length f0]))
           = Inr (Jt\<lparr>rows := (rows Jt)[k := jacobian_row rv target_pts pos k]\<rparr>)"
    using k w c f0
    by (simp add: set_row_def jacobian_row_def length_expected_flat comp_def)
  show ?thesis
    using pos i e d r
    by (simp add: fd_step_def alloc_def Let_def expected_flat_def[symmetric])
qed

lemma fd_loop_total:
  assumes v: "view s = Some rv" and c: "projection_contract rv"
    and p: "position (chain_state (M_chain s)) < length g"
    and pos: "g ! position (chain_state (M_chain s)) = pos"
    and ks: "\<forall>k \<in> set ks. k < length pos \<and> k < shape0 Jt"
    and f0: "f0 = expected_flat rv target_pts pos"
    and w: "shape1 Jt = shape1 target_pts * 2"
    and wf: "wf_matrix Jt"
  shows "\<exists>x' Jt' g'. for_each (fd_step s target_pts f0) ks (x, Jt, g) = Inr (x', Jt', g') \<and>
           wf_matrix Jt' \<and> shape0 Jt' = shape0 Jt \<and> shape1 Jt' = shape1 Jt \<and>
           (\<forall>k < shape0 Jt. rows Jt' ! k =
              (if k \<in> set ks then jacobian_row rv target_pts pos k else rows Jt ! k))"
  using p pos ks w wf
proof (induction ks arbitrary: x Jt g)
  case Nil
  then show ?case by simp
next
  case (Cons k ks)
  let ?x1 = "x\<lparr>position := length g\<rparr>"
  let ?J1 = "Jt\<lparr>rows := (rows Jt)[k := jacobian_row rv target_pts pos k]\<rparr>"
  let ?g1 = "g @ [pos[k := pos ! k + epsilon]]"
  have kk: "k < length pos" "k < shape0 Jt" using Cons.prems(3) by simp_all
  have step: "fd_step s target_pts f0 k (x, Jt, g) = Inr (?x1, ?J1, ?g1)"
    by (rule fd_step_total[OF v c Cons.prems(1,2) kk f0 Cons.prems(4)])
  have lr: "length (jacobian_row rv target_pts pos k) = shape1 Jt"
    using c Cons.prems(4) by (simp add: jacobian_row_def length_expected_flat)
  have wf1: "wf_matrix ?J1"
    using Cons.prems(5) lr kk by (auto simp: wf_matrix_def list_all_length nth_list_update)
  have p1: "position (chain_state (M_chain s)) < length ?g1" using Cons.prems(1) by simp
  have pos1: "?g1 ! position (chain_state (M_chain s)) = pos"
    using Cons.prems(1,2) by (simp add: nth_append)
  have ks1: "\<forall>j \<in> set ks. j < length pos \<and> j < shape0 ?J1" using Cons.prems(3) by simp
  have w1: "shape1 ?J1 = shape1 target_pts * 2" using Cons.prems(4) by simp
  from Cons.IH[OF p1 pos1 ks1 w1 wf1, of ?x1] obtain x' Jt' g' where
    r: "for_each (fd_step s target_pts f0) ks (?x1, ?J1, ?g1) = Inr (x', Jt', g')"
       "wf_matrix Jt'" "shape0 Jt' = shape0 Jt" "shape1 Jt' = shape1 Jt"
       "\<forall>j < shape0 Jt. rows Jt' ! j =
              (if j \<in> set ks then jacobian_row rv target_pts pos j else rows ?J1 ! j)"
    by auto
  have len: "length (rows Jt) = shape0 Jt" using Cons.prems(5) by (simp add: wf_matrix_def)
  have "\<forall>j < shape0 Jt. rows Jt' ! j =
          (if j \<in> set (k # ks) then jacobian_row rv target_pts pos j else rows Jt ! j)"
    using r(5) len by (auto simp: nth_list_update)
  with r(1-4) step show ?case by simp
qed

lemma cam_step_total:
  assumes "wf_matrix m" and "2 * k + 1 < shape0 m" and "2 * k + 1 < shape1 m"
  shows "\<exists>m'. cam_step rv k m = Inr m'"
  using assms by (simp add: cam_step_def set_item_def)

lemma cam_loop_total:
  assumes "wf_matrix m" and "shape0 m = n" and "shape1 m = n"
    and "\<forall>k \<in> set ks. 2 * k + 1 < n"
  shows "\<exists>m'. for_each (cam_step rv) ks m = Inr m' \<and> wf_matrix m' \<and>
           shape0 m' = n \<and> shape1 m' = n \<and>
           (\<forall>a < n. \<forall>b < n. rows m' ! a ! b =
              (if a = b \<and> a div 2 \<in> set ks then (if even a then cov_u rv else cov_v rv)
               else rows m ! a ! b))"
  using assms
proof (induction ks arbitrary: m)
  case Nil
  then show ?case by simp
next
  case (Cons k ks)
  have k: "2 * k + 1 < shape0 m" "2 * k + 1 < shape1 m" using Cons.prems by simp_all
  from cam_step_total[OF Cons.prems(1) k] obtain m1 where m1: "cam_step rv k m = Inr m1"
    by blast
  note f = cam_step_Inr[OF m1 Cons.prems(1)]
  have s1: "shape0 m1 = n" "shape1 m1 = n" using f(1,2) Cons.prems(2,3) by simp_all
  have ks: "\<forall>j \<in> set ks. 2 * j + 1 < n" using Cons.prems(4) by simp
  from Cons.IH[OF f(3) s1 ks] obtain m' where
    r: "for_each (cam_step rv) ks m1 = Inr m'" "wf_matrix m'" "shape0 m' = n" "shape1 m' = n"
       "\<forall>a < n. \<forall>b < n. rows m' ! a ! b =
              (if a = b \<and> a div 2 \<in> set ks then (if even a then cov_u rv else cov_v rv)
               else rows m1 ! a ! b)"
    by blast
  have "rows m' ! a ! b =
          (if a = b \<and> a div 2 \<in> set (k # ks) then (if even a then cov_u rv else cov_v rv)
           else rows m ! a ! b)" if ab: "a < n" "b < n" for a b
  proof -
    have e1: "rows m1 ! a ! b =
             (if a = 2 * k + 1 \<and> b = 2 * k + 1 then cov_v rv
              else if a = 2 * k \<and> b = 2 * k then cov_u rv else rows m ! a ! b)"
      using f(4)[of a b] ab Cons.prems(2,3) by simp
    have m': "rows m' ! a ! b =
              (if a = b \<and> a div 2 \<in> set ks then (if even a then cov_u rv else cov_v rv)
               else rows m1 ! a ! b)"
      using r(5) ab by simp
    consider (u) "a = b" "a = 2 * k" | (v) "a = b" "a = 2 * k + 1"
      | (other) "a \<noteq> b \<or> a div 2 \<noteq> k"
    proof -
      have "a div 2 = k \<longleftrightarrow> a = 2 * k \<or> a = 2 * k + 1" by presburger
      then show ?thesis using u v other by blast
    qed
    then show ?thesis
    proof cases
      case u
      then have "a div 2 = k" "even a" by auto
      with u m' e1 show ?thesis by simp
    next
      case v
      then have "a div 2 = k" "odd a" by auto
      with v m' e1 show ?thesis by simp
    next
      case other
      then have n: "\<not> (a = 2 * k + 1 \<and> b = 2 * k + 1)" "\<not> (a = 2 * k \<and> b = 2 * k)"
        by auto
      have "rows m1 ! a ! b = rows m ! a ! b"
        by (simp only: e1 n if_False)
      with other m' show ?thesis by auto
    qed
  qed
  with r(1-4) m1 show ?case by simp
qed

lemma double_diag_entries:
  assumes "product_defined cfg J"
  shows "shape0 (np_matrix (np_diag (np_diag cfg))) = J"
    and "shape1 (np_matrix (np_diag (np_diag cfg))) = J"
    and "\<And>l k. l < J \<Longrightarrow> k < J \<Longrightarrow>
           rows (np_matrix (np_diag (np_diag cfg))) ! l ! k
             = (if l = k then variances_of cfg ! l else 0)"
  using assms
  by (cases cfg; auto simp: product_defined_def variances_of_def)+

lemma mat_mul_total:
  assumes "shape1 a = shape0 b"
  shows "\<exists>c. mat_mul a b = Inr c"
  using assms by (simp add: mat_mul_def)

section \<open>The residual\<close>

text \<open>
  C1. The claim covers every observation, among them the one with no image point, for
  which a target with no column should give the empty residual, of length
  \<^verbatim>\<open>get_residual_length() = 0\<close>. There \<^verbatim>\<open>get_measurement\<close> does not return the \<open>N \<times> 2\<close> matrix
  its comment promises: \<^verbatim>\<open>numpy.matrix([])\<close> has shape \<open>(1, 0)\<close>. The projection meets its
  contract and the expected matrix has shape \<open>(0, 2)\<close>, but the assertion of line 90 on
  the observed matrix fails and the call raises \<^verbatim>\<open>AssertionError\<close>.
\<close>

theorem compute_residual_empty_observation:
  "image_points (M_cam ex_empty) = [] \<and> shape1 (ex_target 0) = 0 \<and>
   get_residual_length ex_empty = 0 \<and>
   projection_contract (ex_view 1 (Arr1 [4])) \<and>
   view ex_empty = Some (ex_view 1 (Arr1 [4])) \<and>
   get_measurement ex_empty = \<lparr>shape0 = 1, shape1 = 0, rows = [[]]\<rparr> \<and>
   compute_expected ex_empty [[3]] (ex_target 0) = Inr \<lparr>shape0 = 0, shape1 = 2, rows = []\<rparr> \<and>
   compute_residual ex_empty [[3]] (ex_target 0) = Inl AssertionError"
proof -
  have "projection_contract (ex_view 1 (Arr1 [4]))"
    by (simp add: projection_contract_def wf_matrix_def ex_defs)
  moreover have "compute_residual ex_empty [[3]] (ex_target 0) = Inl AssertionError"
    by (simp add: residual_defs ex_defs)
  moreover have "compute_expected ex_empty [[3]] (ex_target 0)
      = Inr \<lparr>shape0 = 0, shape1 = 2, rows = []\<rparr>"
    by (simp add: compute_expected_def compute_expected_of_def mat_T_def ex_defs)
  moreover have "get_measurement ex_empty = \<lparr>shape0 = 1, shape1 = 0, rows = [[]]\<rparr>"
    by (simp add: get_measurement_def matrix_of_lists_def ex_defs)
  ultimately show ?thesis
    by (simp add: get_residual_length_def ex_defs)
qed

text \<open>
  For an observation with at least one image point the residual is the one described:
  when the projection meets its contract and the target has as many columns as the
  observation has points \<open>N\<close>, \<^verbatim>\<open>compute_residual\<close> returns a flat sequence of length \<open>2 N\<close>,
  the value of \<^verbatim>\<open>get_residual_length\<close>, whose entries \<open>2 i\<close> and \<open>2 i + 1\<close> are the expected
  minus the observed \<open>x\<close> and \<open>y\<close> of point \<open>i\<close>.
\<close>

lemma compute_residual_flat:
  assumes "view s = Some rv" and "projection_contract rv"
    and "image_points (M_cam s) \<noteq> []"
    and "shape1 target_pts = length (image_points (M_cam s))"
  shows "\<exists>r h_mat. compute_residual s h target_pts = Inr r \<and>
           compute_expected s h target_pts = Inr h_mat \<and>
           length r = get_residual_length s \<and>
           (\<forall>i < length (image_points (M_cam s)).
              r ! (2 * i) = rows h_mat ! i ! 0 - pt_x (image_points (M_cam s) ! i) \<and>
              r ! (2 * i + 1) = rows h_mat ! i ! 1 - pt_y (image_points (M_cam s) ! i))"
proof -
  let ?pts = "image_points (M_cam s)"
  let ?z = "get_measurement s"
  from compute_expected_contract[OF assms(1,2)] obtain h_mat where
    hm: "compute_expected s h target_pts = Inr h_mat" "shape0 h_mat = shape1 target_pts"
      "shape1 h_mat = 2"
    by blast
  have sh: "shape0 h_mat = shape0 ?z" "shape1 h_mat = shape1 ?z"
    using hm assms(3,4) by (simp_all add: get_measurement_nonempty)
  let ?r = "concat (map (\<lambda>i. [rows h_mat ! i ! 0 - rows ?z ! i ! 0,
                               rows h_mat ! i ! 1 - rows ?z ! i ! 1]) [0..<length ?pts])"
  have res: "compute_residual s h target_pts = Inr ?r"
    using hm assms(3,4) sh
    by (simp add: compute_residual_reaches_subtraction mat_binop_same_shape upt_2
        get_measurement_nonempty(1,2))
  have len: "length ?r = get_residual_length s"
    by (simp add: concat_pairs_length get_residual_length_def)
  have ent: "?r ! (2 * i) = rows h_mat ! i ! 0 - pt_x (?pts ! i) \<and>
             ?r ! (2 * i + 1) = rows h_mat ! i ! 1 - pt_y (?pts ! i)" if "i < length ?pts" for i
    using concat_pairs_nth[of i "[0..<length ?pts]"
        "\<lambda>i. rows h_mat ! i ! 0 - rows ?z ! i ! 0" "\<lambda>i. rows h_mat ! i ! 1 - rows ?z ! i ! 1"] that assms(3)
    by (simp add: get_measurement_nonempty(3))
  show ?thesis using res hm(1) len ent by blast
qed

lemma compute_residual_flat_example:
  "view ex_one_joint = Some (ex_view 1 (Arr1 [4])) \<and>
   projection_contract (ex_view 1 (Arr1 [4])) \<and>
   image_points (M_cam ex_one_joint) \<noteq> [] \<and>
   shape1 (ex_target 1) = length (image_points (M_cam ex_one_joint)) \<and>
   compute_residual ex_one_joint [[3]] (ex_target 1) = Inr [2, 1] \<and>
   (\<exists>r h_mat. compute_residual ex_one_joint [[3]] (ex_target 1) = Inr r \<and>
      compute_expected ex_one_joint [[3]] (ex_target 1) = Inr h_mat \<and>
      length r = get_residual_length ex_one_joint \<and>
      (\<forall>i < length (image_points (M_cam ex_one_joint)).
         r ! (2 * i) = rows h_mat ! i ! 0 - pt_x (image_points (M_cam ex_one_joint) ! i) \<and>
         r ! (2 * i + 1) = rows h_mat ! i ! 1 - pt_y (image_points (M_cam ex_one_joint) ! i)))"
proof -
  have a: "view ex_one_joint = Some (ex_view 1 (Arr1 [4]))"
    by (simp add: ex_defs)
  have b: "projection_contract (ex_view 1 (Arr1 [4]))"
    by (simp add: projection_contract_def wf_matrix_def ex_defs)
  have c: "image_points (M_cam ex_one_joint) \<noteq> []"
    by (simp add: ex_defs)
  have d: "shape1 (ex_target 1) = length (image_points (M_cam ex_one_joint))"
    by (simp add: ex_defs)
  have e: "compute_residual ex_one_joint [[3]] (ex_target 1) = Inr [2, 1]"
    by (simp add: residual_defs ex_defs upt_rec)
  from compute_residual_flat[OF a b c d, of "[[3]]"] a b c d e show ?thesis
    by blast
qed

text \<open>
  C7. In an exact-fit scenario, where \<^verbatim>\<open>compute_expected\<close> returns the very matrix
  \<^verbatim>\<open>get_measurement\<close> returns (the projection meeting its contract of two pixel
  coordinates per point), \<^verbatim>\<open>compute_residual\<close> returns the zero vector of length
  \<^verbatim>\<open>get_residual_length()\<close>. In exact arithmetic the vector is exactly zero.
\<close>

theorem compute_residual_exact_fit:
  assumes "view s = Some rv" and "projection_contract rv"
    and "compute_expected s h target_pts = Inr (get_measurement s)"
  shows "compute_residual s h target_pts = Inr (replicate (get_residual_length s) 0)"
proof -
  from compute_expected_contract[OF assms(1,2), of h target_pts] assms(3)
  have c2: "shape1 (get_measurement s) = 2" by simp
  then have ne: "image_points (M_cam s) \<noteq> []" by (simp add: shape1_get_measurement)
  have "compute_residual s h target_pts =
          Inr (concat (map (\<lambda>i. [0, 0]) [0..<length (image_points (M_cam s))]))"
    using assms(3) c2 ne
    by (simp add: compute_residual_reaches_subtraction mat_binop_same_shape upt_2
        get_measurement_nonempty(1))
  then show ?thesis
    by (simp add: concat_zero_pairs get_residual_length_def)
qed

theorem compute_residual_exact_fit_witness:
  "view ex_fit = Some (ex_view 1 (Arr1 [4])) \<and>
   projection_contract (ex_view 1 (Arr1 [4])) \<and>
   compute_expected ex_fit [[3]] (ex_target 1) = Inr (get_measurement ex_fit) \<and>
   compute_residual ex_fit [[3]] (ex_target 1) = Inr [0, 0]"
proof -
  have a: "view ex_fit = Some (ex_view 1 (Arr1 [4]))"
    by (simp add: ex_defs)
  have b: "projection_contract (ex_view 1 (Arr1 [4]))"
    by (simp add: projection_contract_def wf_matrix_def ex_defs)
  have c: "compute_expected ex_fit [[3]] (ex_target 1) = Inr (get_measurement ex_fit)"
    by (simp add: residual_defs ex_defs upt_rec)
  have "get_residual_length ex_fit = 2"
    by (simp add: get_residual_length_def ex_defs)
  with compute_residual_exact_fit[OF a b c] a b c show ?thesis
    by (simp add: numeral_2_eq_2)
qed

text \<open>
  C8. Once \<^verbatim>\<open>compute_expected\<close> has returned, \<^verbatim>\<open>compute_residual\<close> raises
  \<^verbatim>\<open>AssertionError\<close> whenever the observed or the expected matrix does not have exactly two
  columns, and does not raise \<^verbatim>\<open>AssertionError\<close> when both have exactly two.
\<close>

theorem compute_residual_column_check:
  assumes "compute_expected s h target_pts = Inr h_mat"
  shows "(shape1 (get_measurement s) \<noteq> 2 \<or> shape1 h_mat \<noteq> 2
            \<longrightarrow> compute_residual s h target_pts = Inl AssertionError) \<and>
         (shape1 (get_measurement s) = 2 \<and> shape1 h_mat = 2
            \<longrightarrow> compute_residual s h target_pts \<noteq> Inl AssertionError)"
  using assms mat_binop_neq_assert[of "(-)" h_mat "get_measurement s"]
  by (auto simp: compute_residual_def Let_def bind_err_def split: sum.splits)

theorem compute_residual_column_check_witness:
  "compute_expected ex_empty [[3]] (ex_target 0) = Inr (mat_T (ex_pixel_pts [3] (ex_target 0))) \<and>
   shape1 (get_measurement ex_empty) = 0 \<and>
   compute_residual ex_empty [[3]] (ex_target 0) = Inl AssertionError \<and>
   compute_expected ex_one_joint [[3]] (ex_target 1) = Inr (mat_T (ex_pixel_pts [3] (ex_target 1))) \<and>
   shape1 (get_measurement ex_one_joint) = 2 \<and>
   shape1 (mat_T (ex_pixel_pts [3] (ex_target 1))) = 2 \<and>
   compute_residual ex_one_joint [[3]] (ex_target 1) \<noteq> Inl AssertionError"
proof -
  have a: "compute_expected ex_empty [[3]] (ex_target 0)
             = Inr (mat_T (ex_pixel_pts [3] (ex_target 0)))"
    by (simp add: compute_expected_def compute_expected_of_def ex_defs)
  have b: "shape1 (get_measurement ex_empty) = 0"
    by (simp add: get_measurement_def matrix_of_lists_def ex_defs)
  have c: "compute_expected ex_one_joint [[3]] (ex_target 1)
             = Inr (mat_T (ex_pixel_pts [3] (ex_target 1)))"
    by (simp add: compute_expected_def compute_expected_of_def ex_defs)
  have d: "shape1 (get_measurement ex_one_joint) = 2"
    by (simp add: get_measurement_def matrix_of_lists_def ex_defs)
  have e: "shape1 (mat_T (ex_pixel_pts [3] (ex_target 1))) = 2"
    by (simp add: ex_defs)
  from compute_residual_column_check[OF a] compute_residual_column_check[OF c] a b c d e
  show ?thesis by simp
qed

text \<open>
  C10. When the expected and the observed matrix both have exactly two columns but
  different numbers of rows, no assertion of \<^verbatim>\<open>compute_residual\<close> fails: the third one
  compares the observed row count with itself. Execution reaches the broadcasting
  subtraction, which either raises \<^verbatim>\<open>ValueError\<close> or, when one of the two has a single row,
  repeats that row.
\<close>

theorem compute_residual_row_mismatch_unchecked:
  assumes "compute_expected s h target_pts = Inr h_mat"
    and "shape1 h_mat = 2" and "shape1 (get_measurement s) = 2"
    and "shape0 h_mat \<noteq> shape0 (get_measurement s)"
  shows "compute_residual s h target_pts \<noteq> Inl AssertionError \<and>
         compute_residual s h target_pts =
           bind_err (mat_binop (-) h_mat (get_measurement s)) (\<lambda>d. column0 (reshape_column d))"
proof -
  have eq: "compute_residual s h target_pts =
           bind_err (mat_binop (-) h_mat (get_measurement s)) (\<lambda>d. column0 (reshape_column d))"
    using assms by (simp add: compute_residual_def Let_def)
  moreover have "bind_err (mat_binop (-) h_mat (get_measurement s)) (\<lambda>d. column0 (reshape_column d))
       \<noteq> Inl AssertionError"
    using mat_binop_neq_assert[of "(-)" h_mat "get_measurement s"]
    by (cases "mat_binop (-) h_mat (get_measurement s)") simp_all
  ultimately show ?thesis by simp
qed

theorem compute_residual_row_mismatch_unchecked_witness:
  "compute_expected ex_one_joint [[3]] (ex_target 3) = Inr (mat_T (ex_pixel_pts [3] (ex_target 3))) \<and>
   shape1 (mat_T (ex_pixel_pts [3] (ex_target 3))) = 2 \<and>
   shape1 (get_measurement ex_one_joint) = 2 \<and>
   shape0 (mat_T (ex_pixel_pts [3] (ex_target 3))) = 3 \<and>
   shape0 (get_measurement ex_one_joint) = 1 \<and>
   compute_residual ex_one_joint [[3]] (ex_target 3) \<noteq> Inl AssertionError \<and>
   compute_residual ex_one_joint [[3]] (ex_target 3) = Inr [2, 1, 2, 1, 2, 1] \<and>
   get_residual_length ex_one_joint = 2"
proof -
  have a: "compute_expected ex_one_joint [[3]] (ex_target 3)
             = Inr (mat_T (ex_pixel_pts [3] (ex_target 3)))"
    by (simp add: compute_expected_def compute_expected_of_def ex_defs)
  have b: "shape1 (mat_T (ex_pixel_pts [3] (ex_target 3))) = 2"
    by (simp add: ex_defs)
  have c: "shape1 (get_measurement ex_one_joint) = 2"
    by (simp add: get_measurement_def matrix_of_lists_def ex_defs)
  have d: "shape0 (mat_T (ex_pixel_pts [3] (ex_target 3))) = 3"
    by (simp add: ex_defs)
  have e: "shape0 (get_measurement ex_one_joint) = 1"
    by (simp add: get_measurement_def matrix_of_lists_def ex_defs)
  have f: "compute_residual ex_one_joint [[3]] (ex_target 3) = Inr [2, 1, 2, 1, 2, 1]"
    by (simp add: residual_defs ex_defs upt_rec)
  have g: "get_residual_length ex_one_joint = 2"
    by (simp add: get_residual_length_def ex_defs)
  from d e have ne: "shape0 (mat_T (ex_pixel_pts [3] (ex_target 3)))
      \<noteq> shape0 (get_measurement ex_one_joint)"
    by simp
  from compute_residual_row_mismatch_unchecked[OF a b c ne] a b c d e f g show ?thesis
    by blast
qed

section \<open>The covariance\<close>

text \<open>
  C5. Whatever the input, a covariance that \<^verbatim>\<open>compute_cov\<close> returns is square and
  symmetric: \<open>cov[i][j] = cov[j][i]\<close> for all indices. In exact arithmetic the equality is
  exact.
\<close>

theorem compute_cov_symmetric:
  assumes "compute_cov s h target_pts = Inr (cov, h')"
  shows "shape0 cov = shape1 cov \<and>
         (\<forall>i < shape0 cov. \<forall>j < shape0 cov. rows cov ! i ! j = rows cov ! j ! i)"
proof -
  from compute_cov_Inr[OF assms] obtain x' Jt' rv p chain_cov cam_cov' f0 st0 ks where
    pr: "mat_mul (mat_T Jt') (np_matrix (np_diag (np_diag (cov_joint_angles rv)))) = Inr p"
        "mat_mul p Jt' = Inr chain_cov"
    and cam: "for_each (cam_step rv) [0..<shape0 chain_cov div 2]
               (zeros (shape0 chain_cov) (shape1 chain_cov)) = Inr cam_cov'"
    and sum: "mat_binop (+) chain_cov cam_cov' = Inr cov"
    by metis
  from double_diag_square[OF pr] have
    B: "symmetric_matrix (np_matrix (np_diag (np_diag (cov_joint_angles rv))))"
       "shape0 (np_matrix (np_diag (np_diag (cov_joint_angles rv)))) = shape0 Jt'"
    by simp_all
  from congruence_symmetric[OF pr B] have
    cc: "symmetric_matrix chain_cov" "wf_matrix chain_cov"
    by simp_all
  then have sq: "shape1 chain_cov = shape0 chain_cov" by (simp add: symmetric_matrix_def)
  from cam_loop_symmetric[OF cam[unfolded sq]] have
    "symmetric_matrix cam_cov'" "shape0 cam_cov' = shape0 chain_cov"
    by simp_all
  from add_symmetric[OF sum cc(1) this(1)] this(2) show ?thesis
    by (simp add: symmetric_matrix_def)
qed

theorem compute_cov_symmetric_witness:
  "compute_cov ex_one_joint [[3]] (ex_target 1)
     = Inr (\<lparr>shape0 = 2, shape1 = 2, rows = [[5, 8], [8, 18]]\<rparr>, [[3], [3], [3 + epsilon]]) \<and>
   (\<exists>cov h'. compute_cov ex_one_joint [[3]] (ex_target 1) = Inr (cov, h') \<and>
      shape0 cov = shape1 cov \<and>
      (\<forall>i < shape0 cov. \<forall>j < shape0 cov. rows cov ! i ! j = rows cov ! j ! i))"
proof -
  have e: "compute_cov ex_one_joint [[3]] (ex_target 1)
     = Inr (\<lparr>shape0 = 2, shape1 = 2, rows = [[5, 8], [8, 18]]\<rparr>, [[3], [3], [3 + epsilon]])"
    by (simp add: cov_defs ex_defs upt_rec)
  from compute_cov_symmetric[OF e] e show ?thesis
    by blast
qed

text \<open>
  C9. When \<^verbatim>\<open>compute_cov\<close> returns, the list of joint positions of the bound chain
  observation is what it was before the call, and so is every list object that existed
  before the call: each perturbation is written to a list allocated by the call.
\<close>

theorem compute_cov_keeps_observation:
  assumes "compute_cov s h target_pts = Inr (cov, h')"
    and "position (chain_state (M_chain s)) < length h"
  shows "h' ! position (chain_state (M_chain s)) = h ! position (chain_state (M_chain s)) \<and>
         take (length h) h' = h"
proof -
  let ?p = "position (chain_state (M_chain s))"
  from compute_cov_Inr[OF assms(1)] obtain x' Jt' f0 where
    "for_each (fd_step s target_pts f0) [0..<length (h ! ?p)]
        (\<lparr>position = length h\<rparr>, zeros (length (h ! ?p)) (get_residual_length s), h @ [h ! ?p])
       = Inr (x', Jt', h')"
    by metis
  from fd_loop_Inr[OF this] have a: "take (Suc (length h)) h' = h @ [h ! ?p]"
    by simp
  have "take (length h) h' = take (length h) (take (Suc (length h)) h')"
    by (simp add: min_def)
  also have "\<dots> = h"
    by (simp add: a)
  finally have t: "take (length h) h' = h" .
  have "h' ! ?p = take (length h) h' ! ?p"
    using assms(2) by simp
  with t show ?thesis by simp
qed

theorem compute_cov_keeps_observation_witness:
  "position (chain_state (M_chain ex_one_joint)) < length [[3::real]] \<and>
   (\<exists>cov h'. compute_cov ex_one_joint [[3]] (ex_target 1) = Inr (cov, h') \<and>
      h' = [[3], [3], [3 + epsilon]] \<and>
      h' ! position (chain_state (M_chain ex_one_joint))
        = [[3]] ! position (chain_state (M_chain ex_one_joint)) \<and>
      take (length [[3::real]]) h' = [[3]])"
proof -
  have p: "position (chain_state (M_chain ex_one_joint)) < length [[3::real]]"
    by (simp add: ex_defs)
  have e: "compute_cov ex_one_joint [[3]] (ex_target 1)
     = Inr (\<lparr>shape0 = 2, shape1 = 2, rows = [[5, 8], [8, 18]]\<rparr>, [[3], [3], [3 + epsilon]])"
    by (simp add: cov_defs ex_defs upt_rec)
  from compute_cov_keeps_observation[OF e p] p e show ?thesis
    by blast
qed

text \<open>
  What \<^verbatim>\<open>compute_cov\<close> computes when the product of line 136 is defined, that is for a single
  joint with a single configured variance, or for a configured two-dimensional array whose
  diagonal has one entry per joint: row \<open>k\<close> of \<open>Jt\<close> holds the forward-difference quotients
  of joint \<open>k\<close> with step \<open>10\<^sup>-\<^sup>8\<close>, and the result is the \<open>2 N \<times> 2 N\<close> matrix
  \<open>Jt\<^sup>T diag(variances) Jt\<close> plus the camera-noise diagonal.
\<close>

lemma compute_cov_formula:
  assumes v: "view s = Some rv" and c: "projection_contract rv"
    and p: "position (chain_state (M_chain s)) < length h"
    and n: "shape1 target_pts = length (image_points (M_cam s))"
    and pd: "product_defined (cov_joint_angles rv)
               (length (h ! position (chain_state (M_chain s))))"
  shows "\<exists>cov h'. compute_cov s h target_pts = Inr (cov, h') \<and>
           shape0 cov = get_residual_length s \<and> shape1 cov = get_residual_length s \<and>
           (\<forall>i < get_residual_length s. \<forall>j < get_residual_length s.
              rows cov ! i ! j =
                (\<Sum>k < length (h ! position (chain_state (M_chain s))).
                   jacobian_row rv target_pts (h ! position (chain_state (M_chain s))) k ! i
                   * variances_of (cov_joint_angles rv) ! k
                   * jacobian_row rv target_pts (h ! position (chain_state (M_chain s))) k ! j)
                + camera_noise rv i j)"
proof -
  let ?p = "position (chain_state (M_chain s))"
  let ?pos = "h ! ?p"
  let ?J = "length ?pos"
  let ?n = "get_residual_length s"
  let ?B = "np_matrix (np_diag (np_diag (cov_joint_angles rv)))"
  let ?d = "variances_of (cov_joint_angles rv)"
  let ?f0 = "expected_flat rv target_pts ?pos"
  let ?jac = "jacobian_row rv target_pts ?pos"
  have n2: "?n = shape1 target_pts * 2" using n by (simp add: get_residual_length_def)
  have p1: "?p < length (h @ [?pos])" using p by simp
  have pos1: "(h @ [?pos]) ! ?p = ?pos" using p by (simp add: nth_append)
  have ks: "\<forall>k \<in> set [0..<?J]. k < length ?pos \<and> k < shape0 (zeros ?J ?n)" by simp
  have w: "shape1 (zeros ?J ?n) = shape1 target_pts * 2" using n2 by simp
  from fd_loop_total[OF v c p1 pos1 ks refl w wf_zeros, of "\<lparr>position = length h\<rparr>"]
  obtain x' Jt' g' where
    loop: "for_each (fd_step s target_pts ?f0) [0..<?J]
             (\<lparr>position = length h\<rparr>, zeros ?J ?n, h @ [?pos]) = Inr (x', Jt', g')"
    and Jt: "wf_matrix Jt'" "shape0 Jt' = ?J" "shape1 Jt' = ?n"
    and Jrows: "\<forall>k < ?J. rows Jt' ! k = ?jac k"
    by auto
  note B = double_diag_entries[OF pd]
  from mat_mul_total[of "mat_T Jt'" ?B] Jt B(1) obtain P where P: "mat_mul (mat_T Jt') ?B = Inr P"
    by auto
  note Pf = mat_mul_Inr[OF P]
  from mat_mul_total[of P Jt'] Pf(3) B(2) Jt obtain cc where cc: "mat_mul P Jt' = Inr cc"
    by auto
  note ccf = mat_mul_Inr[OF cc]
  have shcc: "shape0 cc = ?n" "shape1 cc = ?n" using ccf(2,3) Pf(2) Jt by simp_all
  have half: "\<forall>k \<in> set [0..<shape0 cc div 2]. 2 * k + 1 < ?n" using shcc by auto
  have "\<exists>m'. for_each (cam_step rv) [0..<shape0 cc div 2] (zeros ?n ?n) = Inr m' \<and>
           wf_matrix m' \<and> shape0 m' = ?n \<and> shape1 m' = ?n \<and>
           (\<forall>a < ?n. \<forall>b < ?n. rows m' ! a ! b =
              (if a = b \<and> a div 2 \<in> set [0..<shape0 cc div 2]
               then (if even a then cov_u rv else cov_v rv)
               else rows (zeros ?n ?n) ! a ! b))"
    by (rule cam_loop_total) (use half in simp_all)
  then obtain cam where
    cam: "for_each (cam_step rv) [0..<shape0 cc div 2] (zeros (shape0 cc) (shape1 cc)) = Inr cam"
    and camf: "wf_matrix cam" "shape0 cam = ?n" "shape1 cam = ?n"
    and came: "\<forall>a < ?n. \<forall>b < ?n. rows cam ! a ! b =
              (if a = b \<and> a div 2 \<in> set [0..<shape0 cc div 2]
               then (if even a then cov_u rv else cov_v rv)
               else rows (zeros ?n ?n) ! a ! b)"
    unfolding shcc by blast
  let ?cov = "\<lparr>shape0 = shape0 cc, shape1 = shape1 cc,
          rows = map (\<lambda>i. map (\<lambda>j. rows cc ! i ! j + rows cam ! i ! j) [0..<shape1 cc])
                     [0..<shape0 cc]\<rparr>"
  have add: "mat_binop (+) cc cam = Inr ?cov"
    using mat_binop_same_shape[of cc cam "(+)"] shcc camf by simp
  have e0: "compute_expected_of s (h @ [?pos]) \<lparr>position = length h\<rparr> target_pts
              = Inr (mat_T (pixel_pts rv ?pos target_pts))"
    using v by (simp add: compute_expected_of_def)
  have res: "compute_cov s h target_pts = Inr (?cov, g')"
    using e0 loop v P cc cam add
    by (simp add: compute_cov_def alloc_def Let_def expected_flat_def[symmetric])
  have Pe: "rows P ! i ! k = ?jac k ! i * ?d ! k" if "i < ?n" "k < ?J" for i k
  proof -
    have "rows P ! i ! k = (\<Sum>l<?J. rows (mat_T Jt') ! i ! l * rows ?B ! l ! k)"
      using Pf(5)[of i k] that Jt B by simp
    also have "\<dots> = (\<Sum>l<?J. if l = k then ?jac k ! i * ?d ! k else 0)"
      using that Jt Jrows B(3) by (intro sum.cong) (simp_all add: nth_mat_T)
    also have "\<dots> = ?jac k ! i * ?d ! k"
      using that by simp
    finally show ?thesis .
  qed
  have cce: "rows cc ! i ! j = (\<Sum>k<?J. ?jac k ! i * ?d ! k * ?jac k ! j)"
    if "i < ?n" "j < ?n" for i j
  proof -
    have "rows cc ! i ! j = (\<Sum>k<?J. rows P ! i ! k * rows Jt' ! k ! j)"
      using ccf(5)[of i j] that Pf(2,3) Jt B by simp
    also have "\<dots> = (\<Sum>k<?J. ?jac k ! i * ?d ! k * ?jac k ! j)"
      using that Jrows by (intro sum.cong) (simp_all add: Pe)
    finally show ?thesis .
  qed
  have cn: "rows cam ! i ! j = camera_noise rv i j" if "i < ?n" "j < ?n" for i j
  proof -
    have "i div 2 < shape0 cc div 2" using that shcc n2 by simp
    then show ?thesis
      using came that shcc by (simp add: camera_noise_def nth_zeros)
  qed
  have "rows ?cov ! i ! j = (\<Sum>k<?J. ?jac k ! i * ?d ! k * ?jac k ! j) + camera_noise rv i j"
    if "i < ?n" "j < ?n" for i j
    using that shcc by (simp add: cce cn)
  with res shcc show ?thesis by auto
qed

lemma compute_cov_no_joints_matrix_config:
  assumes "view s = Some rv" and "projection_contract rv"
    and "position (chain_state (M_chain s)) < length h"
    and "shape1 target_pts = length (image_points (M_cam s))"
    and "h ! position (chain_state (M_chain s)) = []"
    and "cov_joint_angles rv = Arr2 m" and "min (shape0 m) (shape1 m) = 0"
  shows "\<exists>cov h'. compute_cov s h target_pts = Inr (cov, h') \<and>
           shape0 cov = get_residual_length s \<and> shape1 cov = get_residual_length s \<and>
           (\<forall>i < get_residual_length s. \<forall>j < get_residual_length s.
              rows cov ! i ! j = camera_noise rv i j)"
proof -
  have "product_defined (cov_joint_angles rv) (length (h ! position (chain_state (M_chain s))))"
    using assms(5-7) by (simp add: product_defined_def)
  from compute_cov_formula[OF assms(1-4) this] assms(5) show ?thesis
    by simp
qed

text \<open>
  C2. The claim describes a covariance \<open>J\<^sup>T diag(variances) J\<close> plus camera noise for any
  number of joints. Line 135 applies \<^verbatim>\<open>diag\<close> to the configured per-joint variances, which
  yields a square matrix, and line 136 applies \<^verbatim>\<open>diag\<close> to that matrix, which yields the
  vector of variances again; \<^verbatim>\<open>matrix\<close> makes a single row of it. For a chain of two joints
  with the variances \<open>[4, 9]\<close> the product of the \<open>2 \<times> 2\<close> transposed Jacobian and the
  \<open>1 \<times> 2\<close> row is not defined and the call raises \<^verbatim>\<open>ValueError\<close>, although the projection
  meets its contract and the finite-difference loop has filled both rows.
\<close>

theorem compute_cov_two_joints_raises:
  "view ex_two_joints = Some (ex_view 2 (Arr1 [4, 9])) \<and>
   projection_contract (ex_view 2 (Arr1 [4, 9])) \<and>
   length ([[3, 4::real]] ! position (chain_state (M_chain ex_two_joints))) = 2 \<and>
   np_matrix (np_diag (np_diag (Arr1 [4, 9]))) = \<lparr>shape0 = 1, shape1 = 2, rows = [[4, 9]]\<rparr> \<and>
   compute_cov ex_two_joints [[3, 4]] (ex_target 1) = Inl ValueError"
proof -
  have "projection_contract (ex_view 2 (Arr1 [4, 9]))"
    by (simp add: projection_contract_def wf_matrix_def ex_defs)
  moreover have "compute_cov ex_two_joints [[3, 4]] (ex_target 1) = Inl ValueError"
    by (simp add: cov_defs ex_defs upt_rec)
  moreover have "np_matrix (np_diag (np_diag (Arr1 [4, 9])))
      = \<lparr>shape0 = 1, shape1 = 2, rows = [[4, 9]]\<rparr>"
    by (simp add: upt_rec)
  ultimately show ?thesis
    by (simp add: ex_defs)
qed

text \<open>
  C6. For a chain without joints whose configured variances are the empty list, the same
  two applications of \<^verbatim>\<open>diag\<close> leave a \<open>1 \<times> 0\<close> row; the transposed Jacobian is
  \<open>2 N \<times> 0\<close>, the product is not defined and the call raises \<^verbatim>\<open>ValueError\<close> instead of
  returning the camera-noise covariance.
\<close>

theorem compute_cov_zero_joints_raises:
  "view ex_no_joints = Some (ex_view 0 (Arr1 [])) \<and>
   projection_contract (ex_view 0 (Arr1 [])) \<and>
   length ([[]::real list] ! position (chain_state (M_chain ex_no_joints))) = 0 \<and>
   np_matrix (np_diag (np_diag (Arr1 []))) = \<lparr>shape0 = 1, shape1 = 0, rows = [[]]\<rparr> \<and>
   compute_cov ex_no_joints [[]] (ex_target 1) = Inl ValueError"
proof -
  have "projection_contract (ex_view 0 (Arr1 []))"
    by (simp add: projection_contract_def wf_matrix_def ex_defs)
  moreover have "compute_cov ex_no_joints [[]] (ex_target 1) = Inl ValueError"
    by (simp add: cov_defs ex_defs)
  ultimately show ?thesis
    by (simp add: ex_defs)
qed

section \<open>The sparsity descriptor\<close>

text \<open>
  C4. After \<^verbatim>\<open>update_config\<close>, \<^verbatim>\<open>build_sparsity_dict\<close> raises \<^verbatim>\<open>AssertionError\<close> when the chain's
  link count differs from the number of joint positions of the bound chain observation.
  Otherwise it returns the dictionary with: under \<^verbatim>\<open>transforms\<close>, the mask of six ones for
  exactly the names of \<^verbatim>\<open>before_chain + after_chain\<close>; under \<^verbatim>\<open>dh_chains\<close>, for the chain id
  alone, as many masks \<open>[1, 1, 1, 1]\<close> as the chain has links; under \<^verbatim>\<open>rectified_cameras\<close>,
  for the sensor id alone (the configuration's camera id), \<^verbatim>\<open>{'baseline_shift': 1}\<close>.
\<close>

theorem build_sparsity_dict_contents:
  assumes "view s = Some rv"
  shows "build_sparsity_dict s h =
     (if chain_M rv \<noteq> length (h ! position (chain_state (M_chain s))) then Inl AssertionError
      else Inr \<lparr>transforms =
                  (\<lambda>name. if name \<in> set (before_chain (chain (config_dict s)) @
                                          after_chain (chain (config_dict s)))
                          then Some [1, 1, 1, 1, 1, 1] else None),
                dh_chains = [chain_id (chain (config_dict s)) \<mapsto> replicate (chain_M rv) [1, 1, 1, 1]],
                rectified_cameras = [sensor_id s \<mapsto> [''baseline_shift'' \<mapsto> 1]]\<rparr>)"
  using assms by (auto simp: build_sparsity_dict_def Let_def fold_map_upd fun_eq_iff)

theorem build_sparsity_dict_contents_witness:
  "view ex_three_links = Some (ex_view 3 (Arr1 [4, 4, 4])) \<and>
   sensor_id ex_three_links = camera_id (config_dict ex_three_links) \<and>
   build_sparsity_dict ex_three_links [[0, 0]] = Inl AssertionError \<and>
   build_sparsity_dict ex_three_links [[0, 0, 0]] =
     Inr \<lparr>transforms = (\<lambda>name. if name \<in> set [''mount''] then Some [1, 1, 1, 1, 1, 1] else None),
          dh_chains = [''armL'' \<mapsto> [[1, 1, 1, 1], [1, 1, 1, 1], [1, 1, 1, 1]]],
          rectified_cameras = [''cam1'' \<mapsto> [''baseline_shift'' \<mapsto> 1]]\<rparr>"
proof -
  have a: "view ex_three_links = Some (ex_view 3 (Arr1 [4, 4, 4]))"
    by (simp add: ex_defs)
  have b: "sensor_id ex_three_links = camera_id (config_dict ex_three_links)"
    by (simp add: ex_defs)
  from build_sparsity_dict_contents[OF a, of "[[0, 0]]"]
    build_sparsity_dict_contents[OF a, of "[[0, 0, 0]]"] a b
  show ?thesis
    by (simp add: ex_defs numeral_3_eq_3)
qed

section \<open>The bundler\<close>

text \<open>
  C3. \<^verbatim>\<open>build_blocks\<close> never raises. It returns, in the order of the catalog, one sensor
  for each catalog entry whose camera id occurs among the camera observations and whose
  chain id occurs among the chain observations, bound to the first observation of each
  id; every other entry contributes nothing.
\<close>

theorem build_blocks_catalog_order:
  "build_blocks b M_robot =
     Inr (map (sensor_for M_robot) (filter (config_matches M_robot) (valid_configs b)))"
  by (simp add: build_blocks_def build_blocks_loop)

theorem build_blocks_catalog_order_witness:
  "build_blocks \<lparr>valid_configs = [ex_config2, ex_config]\<rparr> ex_measurement =
     Inr [CameraChainSensor ex_config2 \<lparr>cam_camera_id = ''cam2'', image_points = []\<rparr>
            \<lparr>chn_chain_id = ''armR'', chain_state = \<lparr>position = 1\<rparr>\<rparr>,
          CameraChainSensor ex_config (ex_cam [ex_point]) ex_chain] \<and>
   build_blocks \<lparr>valid_configs = [ex_config, ex_config2]\<rparr>
       \<lparr>M_cam_list = [ex_cam [ex_point]], M_chain_list = [ex_chain]\<rparr> =
     Inr [CameraChainSensor ex_config (ex_cam [ex_point]) ex_chain]"
  using build_blocks_catalog_order[of "\<lparr>valid_configs = [ex_config2, ex_config]\<rparr>" ex_measurement]
    build_blocks_catalog_order[of "\<lparr>valid_configs = [ex_config, ex_config2]\<rparr>"
      "\<lparr>M_cam_list = [ex_cam [ex_point]], M_chain_list = [ex_chain]\<rparr>"]
  by (simp add: config_matches_def sensor_for_def ex_measurement_def ex_cam_def ex_chain_def
      ex_config_def ex_config2_def)

end
